theory Spec2Isabelle
  imports Complex_Main
begin

section \<open>Python values and built-ins used by the webhook server\<close>

text \<open>
  The server receives a JSON payload and passes parts of it, unchecked, to the level
  calculator. A field can therefore hold any JSON value. Numbers are modelled as exact
  reals: the source computes with binary floating point, and every statement below is
  about the exact arithmetic the source approximates. JSON integers and floats are the
  same \<open>PNum\<close>.
\<close>

datatype pyval =
    PNone
  | PBool bool
  | PNum real
  | PStr string
  | PList "pyval list"
  | PDict "(string \<times> pyval) list"

type_synonym pydict = "(string \<times> pyval) list"

text \<open>The exceptions the modelled code can raise. \<open>DeliveryError\<close> stands for whatever
  the messaging client raises when a notification cannot be delivered.\<close>

datatype error = TypeError | ValueError | AttributeError | DeliveryError

text \<open>\<open>d.get(k, default)\<close> and \<open>d.get(k)\<close> on a dict.\<close>

definition dict_get :: "pydict \<Rightarrow> string \<Rightarrow> pyval \<Rightarrow> pyval" where
  "dict_get d k dflt = (case map_of d k of None \<Rightarrow> dflt | Some v \<Rightarrow> v)"

text \<open>Truth value of an object in a boolean context (\<open>if x\<close>, \<open>x and y\<close>).\<close>

fun truthy :: "pyval \<Rightarrow> bool" where
  "truthy PNone = False"
| "truthy (PBool b) = b"
| "truthy (PNum x) = (x \<noteq> 0)"
| "truthy (PStr s) = (s \<noteq> [])"
| "truthy (PList xs) = (xs \<noteq> [])"
| "truthy (PDict kvs) = (kvs \<noteq> [])"

text \<open>
  The operand of an arithmetic operator or an ordering comparison whose other operand
  is a float: numbers and booleans (\<open>True\<close> is 1, \<open>False\<close> is 0) are accepted, anything
  else raises \<open>TypeError\<close>.
\<close>

fun as_num :: "pyval \<Rightarrow> error + real" where
  "as_num (PNum x) = Inr x"
| "as_num (PBool b) = Inr (if b then 1 else 0)"
| "as_num v = Inl TypeError"

text \<open>
  \<open>round(x, n)\<close>: the nearest multiple of \<open>10 ^ -n\<close>, a tie going to the even multiple.
\<close>

definition round_half_even :: "real \<Rightarrow> int" where
  "round_half_even x =
     (let f = \<lfloor>x\<rfloor>; d = x - of_int f
      in if d < 1 / 2 then f
         else if 1 / 2 < d then f + 1
         else if even f then f else f + 1)"

definition py_round :: "real \<Rightarrow> nat \<Rightarrow> real" where
  "py_round x n = of_int (round_half_even (x * 10 ^ n)) / 10 ^ n"

section \<open>The trade level calculator\<close>

definition TICK_SIZE :: real where
  "TICK_SIZE = 0.25"

text \<open>The three returned components; \<open>None\<close> is Python's \<open>None\<close>.\<close>

type_synonym levels = "real option \<times> real option \<times> real option"

text \<open>
  Target selection of the LONG branch (source lines 51 to 61). The condition
  \<open>poc and vah and poc > entry_price and vah > poc\<close> is evaluated left to right and
  stops at the first falsy operand; a comparison with a non-number raises.
\<close>

definition long_targets :: "real \<Rightarrow> real \<Rightarrow> pyval \<Rightarrow> pyval \<Rightarrow> error + (real \<times> real)" where
  "long_targets entry_price risk poc vah =
     (let fallback = (entry_price + (risk * 2.0), entry_price + (risk * 4.0))
      in if \<not> truthy poc then Inr fallback
         else if \<not> truthy vah then Inr fallback
         else case as_num poc of
                Inl e \<Rightarrow> Inl e
              | Inr p \<Rightarrow>
                  if \<not> p > entry_price then Inr fallback
                  else case as_num vah of
                         Inl e \<Rightarrow> Inl e
                       | Inr v \<Rightarrow> if v > p then Inr (p, v) else Inr fallback)"

text \<open>Target selection of the SHORT branch (source lines 75 to 85).\<close>

definition short_targets :: "real \<Rightarrow> real \<Rightarrow> pyval \<Rightarrow> pyval \<Rightarrow> error + (real \<times> real)" where
  "short_targets entry_price risk poc val =
     (let fallback = (entry_price - (risk * 2.0), entry_price - (risk * 4.0))
      in if \<not> truthy poc then Inr fallback
         else if \<not> truthy val then Inr fallback
         else case as_num poc of
                Inl e \<Rightarrow> Inl e
              | Inr p \<Rightarrow>
                  if \<not> p < entry_price then Inr fallback
                  else case as_num val of
                         Inl e \<Rightarrow> Inl e
                       | Inr v \<Rightarrow> if v < p then Inr (p, v) else Inr fallback)"

text \<open>
  The body of the \<open>try\<close> block of \<open>calculate_trade_levels\<close>: \<open>Inl\<close> is a raised
  exception, \<open>Inr\<close> a returned triple. Every \<open>direction\<close> other than \<open>LONG\<close> takes the
  SHORT branch. \<open>entry_price\<close> is a float at the only call site.
\<close>

definition calculate_trade_levels_body :: "string \<Rightarrow> real \<Rightarrow> pydict \<Rightarrow> error + levels" where
  "calculate_trade_levels_body direction entry_price current_data =
     (if direction = ''LONG'' then
        (case as_num (dict_get current_data ''low'' (PNum entry_price)) of
           Inl e \<Rightarrow> Inl e
         | Inr low \<Rightarrow>
             let sl = low - TICK_SIZE;
                 risk = entry_price - sl;
                 poc = dict_get current_data ''poc'' PNone;
                 vah = dict_get current_data ''vah'' PNone
             in case long_targets entry_price risk poc vah of
                  Inl e \<Rightarrow> Inl e
                | Inr (tp1, tp2) \<Rightarrow>
                    let reward = tp1 - entry_price
                    in if reward < risk then Inr (None, None, None)
                       else Inr (Some (py_round sl 2), Some (py_round tp1 2),
                                 Some (py_round tp2 2)))
      else
        (case as_num (dict_get current_data ''high'' (PNum entry_price)) of
           Inl e \<Rightarrow> Inl e
         | Inr high \<Rightarrow>
             let sl = high + TICK_SIZE;
                 risk = sl - entry_price;
                 poc = dict_get current_data ''poc'' PNone;
                 val = dict_get current_data ''val'' PNone
             in case short_targets entry_price risk poc val of
                  Inl e \<Rightarrow> Inl e
                | Inr (tp1, tp2) \<Rightarrow>
                    let reward = entry_price - tp1
                    in if reward < risk then Inr (None, None, None)
                       else Inr (Some (py_round sl 2), Some (py_round tp1 2),
                                 Some (py_round tp2 2))))"

text \<open>\<open>calculate_trade_levels\<close>: the \<open>except Exception\<close> handler turns every exception
  of the body into the triple of \<open>None\<close>.\<close>

definition calculate_trade_levels :: "string \<Rightarrow> real \<Rightarrow> pydict \<Rightarrow> levels" where
  "calculate_trade_levels direction entry_price current_data =
     (case calculate_trade_levels_body direction entry_price current_data of
        Inl e \<Rightarrow> (None, None, None)
      | Inr r \<Rightarrow> r)"

section \<open>The webhook endpoint\<close>

text \<open>
  Messages are ASCII strings: \<open>upper\<close> maps the letters \<open>a\<close> to \<open>z\<close> to \<open>A\<close> to \<open>Z\<close> and
  leaves every other character as it is.
\<close>

definition upper_char :: "char \<Rightarrow> char" where
  "upper_char c =
     (let n = (of_char c :: nat)
      in if 97 \<le> n \<and> n \<le> 122 then char_of (n - 32) else c)"

definition upper :: "string \<Rightarrow> string" where
  "upper s = map upper_char s"

text \<open>\<open>sub in s\<close> on strings: \<open>sub\<close> occurs in \<open>s\<close> as a contiguous substring.\<close>

fun contains :: "string \<Rightarrow> string \<Rightarrow> bool" where
  "contains sub [] = (sub = [])"
| "contains sub (c # cs) = (take (length sub) (c # cs) = sub \<or> contains sub cs)"

text \<open>
  \<open>float(x)\<close>. How Python reads a number from a string is not part of this program: it
  is the parameter \<open>parse_float\<close>, \<open>None\<close> where \<open>float\<close> raises \<open>ValueError\<close>.
\<close>

fun py_float :: "(string \<Rightarrow> real option) \<Rightarrow> pyval \<Rightarrow> error + real" where
  "py_float parse_float (PNum x) = Inr x"
| "py_float parse_float (PBool b) = Inr (if b then 1 else 0)"
| "py_float parse_float (PStr s) =
     (case parse_float s of None \<Rightarrow> Inl ValueError | Some x \<Rightarrow> Inr x)"
| "py_float parse_float v = Inl TypeError"

datatype emoji = GreenCircle | RedCircle

text \<open>
  What is handed to the messaging client: a management alert is forwarded as it is, an
  entry alert is formatted from the emoji, the action, the ticker, the entry price, the
  three levels and the risk-reward ratio (the time of day in the text is left out).
\<close>

datatype notification =
    Passthrough string
  | EntryAlert emoji string pyval real real real real real

text \<open>The JSON body of a response; a response is a body and an HTTP status code.\<close>

datatype body =
    SuccessManagement
  | Rejected
  | SuccessEntry real real real real real
  | UnknownAlert
  | ErrorStatus error

type_synonym response = "body \<times> nat"

text \<open>Direction, emoji and action derived from the message (source lines 112 to 121).\<close>

definition detect_direction :: "string \<Rightarrow> (string \<times> emoji \<times> string) option" where
  "detect_direction alert_message =
     (if contains ''BUY'' (upper alert_message) then Some (''LONG'', GreenCircle, ''BUY'')
      else if contains ''SELL'' (upper alert_message) then Some (''SHORT'', RedCircle, ''SELL'')
      else None)"

text \<open>The test for a management alert (source line 124), on the message as received.\<close>

definition is_management :: "string \<Rightarrow> bool" where
  "is_management alert_message =
     list_ex (\<lambda>keyword. contains keyword alert_message) [''TP1'', ''TP2'', ''BE'', ''SL'']"

text \<open>
  The entry alert (source lines 130 to 187). \<open>send_ok\<close> tells whether the messaging client
  delivers a notification or raises; the second component of a result is the list of
  notifications delivered.
\<close>

definition entry_alert ::
  "(notification \<Rightarrow> bool) \<Rightarrow> pydict \<Rightarrow> string \<Rightarrow> emoji \<Rightarrow> string \<Rightarrow> pyval \<Rightarrow> real
     \<Rightarrow> error + (response \<times> notification list)" where
  "entry_alert send_ok data direction emo action ticker price =
     (let current_data =
            [(''high'', dict_get data ''high'' (PNum (price + 2))),
             (''low'', dict_get data ''low'' (PNum (price - 2))),
             (''vah'', dict_get data ''vah'' PNone),
             (''poc'', dict_get data ''poc'' PNone),
             (''val'', dict_get data ''val'' PNone)]
      in case calculate_trade_levels direction price current_data of
           (None, tp1, tp2) \<Rightarrow> Inr ((Rejected, 200), [])
         | (Some sl, Some tp1, Some tp2) \<Rightarrow>
             let risk = (if direction = ''LONG'' then price - sl else sl - price);
                 reward_tp2 = (if direction = ''LONG'' then tp2 - price else price - tp2);
                 rr = (if risk > 0 then py_round (reward_tp2 / risk) 1 else 0);
                 telegram_message = EntryAlert emo action ticker price sl tp1 tp2 rr
             in if send_ok telegram_message
                then Inr ((SuccessEntry price sl tp1 tp2 rr, 200), [telegram_message])
                else Inl DeliveryError
         | (Some sl, tp1, tp2) \<Rightarrow> Inl TypeError)"

text \<open>The body of the \<open>try\<close> block of \<open>webhook\<close>, on the parsed JSON payload.\<close>

definition webhook_body ::
  "(notification \<Rightarrow> bool) \<Rightarrow> (string \<Rightarrow> real option) \<Rightarrow> pyval
     \<Rightarrow> error + (response \<times> notification list)" where
  "webhook_body send_ok parse_float payload =
     (case payload of
        PDict data \<Rightarrow>
          (let ticker = dict_get data ''ticker'' (PStr ''N/A'')
           in case py_float parse_float (dict_get data ''close'' (PNum 0)) of
                Inl e \<Rightarrow> Inl e
              | Inr price \<Rightarrow>
                  (case dict_get data ''message'' (PStr []) of
                     PStr alert_message \<Rightarrow>
                       if is_management alert_message then
                         (if send_ok (Passthrough alert_message)
                          then Inr ((SuccessManagement, 200), [Passthrough alert_message])
                          else Inl DeliveryError)
                       else
                         (case detect_direction alert_message of
                            Some (direction, emo, action) \<Rightarrow>
                              entry_alert send_ok data direction emo action ticker price
                          | None \<Rightarrow> Inr ((UnknownAlert, 400), []))
                   | _ \<Rightarrow> Inl AttributeError))
      | _ \<Rightarrow> Inl AttributeError)"

text \<open>\<open>webhook\<close>: every exception of the body becomes the error response with status 500.\<close>

definition webhook ::
  "(notification \<Rightarrow> bool) \<Rightarrow> (string \<Rightarrow> real option) \<Rightarrow> pyval
     \<Rightarrow> response \<times> notification list" where
  "webhook send_ok parse_float payload =
     (case webhook_body send_ok parse_float payload of
        Inl e \<Rightarrow> ((ErrorStatus e, 500), [])
      | Inr r \<Rightarrow> r)"

section \<open>Reference levels of a signal\<close>

text \<open>
  A reference level of a signal is either provided as a number or not provided; the
  webhook passes \<open>None\<close> for a level the payload does not have. \<open>level_val\<close> is the
  Python value of such a level.
\<close>

definition level_val :: "real option \<Rightarrow> pyval" where
  "level_val r = (case r of None \<Rightarrow> PNone | Some x \<Rightarrow> PNum x)"

section \<open>Auxiliary facts about the calculator\<close>

lemmas eval_defs = dict_get_def level_val_def TICK_SIZE_def py_round_def round_half_even_def







section \<open>Auxiliary facts about the webhook\<close>

text \<open>
  The body of the webhook once the message is known to be a string and the entry price
  has been read; \<open>sub in s\<close> survives upper-casing both strings, so a message with no
  management keyword in any letter case has none as written.
\<close>

lemmas webhook_eval_defs = webhook_def webhook_body_def entry_alert_def is_management_def
  detect_direction_def upper_def upper_char_def char_of_def bit_0 Let_def
  calculate_trade_levels_def calculate_trade_levels_body_def long_targets_def short_targets_def
  eval_defs

lemma webhook_body_message:
  assumes "dict_get data ''message'' (PStr []) = PStr m"
    and "py_float parse_float (dict_get data ''close'' (PNum 0)) = Inr price"
  shows "webhook_body send_ok parse_float (PDict data) =
     (if is_management m then
        (if send_ok (Passthrough m) then Inr ((SuccessManagement, 200), [Passthrough m])
         else Inl DeliveryError)
      else
        (case detect_direction m of
           Some (direction, emo, action) \<Rightarrow>
             entry_alert send_ok data direction emo action
               (dict_get data ''ticker'' (PStr ''N/A'')) price
         | None \<Rightarrow> Inr ((UnknownAlert, 400), [])))"
  using assms by (simp add: webhook_body_def)

lemma contains_upper: "contains k m \<Longrightarrow> contains (upper k) (upper m)"
proof (induction m)
  case Nil
  then show ?case by (simp add: upper_def)
next
  case (Cons c cs)
  from Cons.prems have "take (length k) (c # cs) = k \<or> contains k cs" by simp
  then show ?case
  proof
    assume "take (length k) (c # cs) = k"
    then have "take (length (upper k)) (upper (c # cs)) = upper k"
      unfolding upper_def by (metis length_map take_map)
    then show ?thesis by (simp add: upper_def)
  next
    assume "contains k cs"
    then have "contains (upper k) (upper cs)" by (rule Cons.IH)
    then show ?thesis by (simp add: upper_def)
  qed
qed

lemma is_management_upper: "is_management m \<Longrightarrow> is_management (upper m)"
proof -
  have u: "upper ''TP1'' = ''TP1''" "upper ''TP2'' = ''TP2''" "upper ''BE'' = ''BE''"
    "upper ''SL'' = ''SL''"
    by (simp_all add: upper_def upper_char_def)
  have k: "contains ''TP1'' m \<Longrightarrow> contains ''TP1'' (upper m)"
    "contains ''TP2'' m \<Longrightarrow> contains ''TP2'' (upper m)"
    "contains ''BE'' m \<Longrightarrow> contains ''BE'' (upper m)"
    "contains ''SL'' m \<Longrightarrow> contains ''SL'' (upper m)"
    using contains_upper [of "''TP1''" m] contains_upper [of "''TP2''" m]
      contains_upper [of "''BE''" m] contains_upper [of "''SL''" m]
    by (simp_all only: u)
  assume "is_management m"
  then show ?thesis
    using k by (auto simp: is_management_def)
qed


section \<open>Rejection: the risk and the risk-reward gate\<close>






section \<open>Which targets are selected\<close>




section \<open>The stop\<close>



section \<open>Exceptions\<close>

text \<open>
  C6. Whenever the body of the calculator raises an exception, \<open>calculate_trade_levels\<close>
  returns the rejected result; it is a total function into triples, so nothing is
  propagated to the caller.
\<close>

theorem exception_gives_rejection:
  "calculate_trade_levels_body direction e cd = Inl err \<Longrightarrow>
   calculate_trade_levels direction e cd = (None, None, None)"
  by (simp add: calculate_trade_levels_def)

theorem exception_gives_rejection_witness:
  "calculate_trade_levels_body ''LONG'' 100 [(''low'', PStr ''abc'')] = Inl TypeError \<and>
   calculate_trade_levels ''LONG'' 100 [(''low'', PStr ''abc'')] = (None, None, None)"
proof -
  have b: "calculate_trade_levels_body ''LONG'' 100 [(''low'', PStr ''abc'')] = Inl TypeError"
    by (simp add: calculate_trade_levels_body_def dict_get_def)
  from b exception_gives_rejection [OF b] show ?thesis by simp
qed

section \<open>The tick size\<close>




section \<open>The worked examples\<close>

text \<open>
  C8. On LONG, entry 100, low 98 and no reference levels the calculator returns stop
  97.75, target1 104.5 and target2 109.0. On SHORT, entry 100, high 102, poc 99 and val 97
  the structure-based targets 99 and 97 are selected, the reward 1 is below the risk 2.25,
  and the calculator returns the rejected result.
\<close>

theorem spec_examples:
  "calculate_trade_levels ''LONG'' 100 [(''low'', PNum 98)] =
     (Some 97.75, Some 104.5, Some 109.0) \<and>
   calculate_trade_levels ''SHORT'' 100
     [(''high'', PNum 102), (''poc'', PNum 99), (''val'', PNum 97)] = (None, None, None) \<and>
   short_targets 100 (102 + TICK_SIZE - 100) (PNum 99) (PNum 97) = Inr (99, 97) \<and>
   (100::real) - 99 = 1 \<and> 102 + TICK_SIZE - 100 = 2.25"
  by (simp add: calculate_trade_levels_def calculate_trade_levels_body_def long_targets_def
      short_targets_def eval_defs)

section \<open>The webhook\<close>

text \<open>
  C5, as the code has it. The management keywords are looked for in the message as it was
  received, so they match in upper case only. For a payload that is a JSON object whose
  message is a string containing \<open>TP1\<close>, \<open>TP2\<close>, \<open>BE\<close> or \<open>SL\<close>, whose \<open>close\<close> is absent or
  converts to a float, and whose notification is delivered, the webhook forwards the
  message unchanged and answers success of type management with status 200. No level is
  computed, whether or not the message also contains \<open>BUY\<close> or \<open>SELL\<close>.
\<close>

theorem management_passthrough:
  "dict_get data ''message'' (PStr []) = PStr m \<Longrightarrow>
   contains ''TP1'' m \<or> contains ''TP2'' m \<or> contains ''BE'' m \<or> contains ''SL'' m \<Longrightarrow>
   py_float parse_float (dict_get data ''close'' (PNum 0)) = Inr price \<Longrightarrow>
   send_ok (Passthrough m) \<Longrightarrow>
   webhook send_ok parse_float (PDict data) = ((SuccessManagement, 200), [Passthrough m])"
  by (auto simp: webhook_def webhook_body_message is_management_def)

theorem management_passthrough_witness:
  "contains ''BUY'' (upper ''BUY TP1 hit'') \<and> contains ''TP1'' ''BUY TP1 hit'' \<and>
   webhook (\<lambda>n. True) (\<lambda>s. None)
     (PDict [(''close'', PNum 100), (''message'', PStr ''BUY TP1 hit'')]) =
     ((SuccessManagement, 200), [Passthrough ''BUY TP1 hit''])"
  using management_passthrough [of "[(''close'', PNum 100), (''message'', PStr ''BUY TP1 hit'')]"
      "''BUY TP1 hit''" "\<lambda>s. None" 100 "\<lambda>n. True"]
  by (simp add: dict_get_def upper_def upper_char_def char_of_def bit_0)

text \<open>
  The claim as stated fails for a keyword in lower case: the message \<open>tp1 hit\<close> contains
  \<open>TP1\<close> once upper-cased, and the webhook answers unknown alert with status 400.
\<close>

theorem lowercase_keyword_not_management:
  "contains ''TP1'' (upper ''tp1 hit'') \<and>
   webhook (\<lambda>n. True) (\<lambda>s. None)
     (PDict [(''close'', PNum 100), (''message'', PStr ''tp1 hit'')]) =
     ((UnknownAlert, 400), [])"
  by (simp add: webhook_eval_defs)

text \<open>
  C9. A message that contains both \<open>BUY\<close> and \<open>SELL\<close> once upper-cased gives the direction
  LONG, with the green emoji and the action BUY; with no management keyword in the
  message, the webhook goes on to the entry alert of direction LONG.
\<close>

theorem buy_takes_precedence:
  "contains ''BUY'' (upper m) \<Longrightarrow> contains ''SELL'' (upper m) \<Longrightarrow>
   \<not> (contains ''TP1'' m \<or> contains ''TP2'' m \<or> contains ''BE'' m \<or> contains ''SL'' m) \<Longrightarrow>
   dict_get data ''message'' (PStr []) = PStr m \<Longrightarrow>
   py_float parse_float (dict_get data ''close'' (PNum 0)) = Inr price \<Longrightarrow>
   detect_direction m = Some (''LONG'', GreenCircle, ''BUY'') \<and>
   webhook_body send_ok parse_float (PDict data) =
     entry_alert send_ok data ''LONG'' GreenCircle ''BUY''
       (dict_get data ''ticker'' (PStr ''N/A'')) price"
  by (simp add: webhook_body_message is_management_def detect_direction_def)

theorem buy_takes_precedence_witness:
  "contains ''BUY'' (upper ''sell or buy'') \<and> contains ''SELL'' (upper ''sell or buy'') \<and>
   detect_direction ''sell or buy'' = Some (''LONG'', GreenCircle, ''BUY'') \<and>
   webhook (\<lambda>n. True) (\<lambda>s. None) (PDict [(''close'', PNum 100), (''message'', PStr ''sell or buy'')]) =
     ((SuccessEntry 100 97.75 104.5 109 4, 200),
      [EntryAlert GreenCircle ''BUY'' (PStr ''N/A'') 100 97.75 104.5 109 4])"
  using buy_takes_precedence [of "''sell or buy''"
      "[(''close'', PNum 100), (''message'', PStr ''sell or buy'')]" "\<lambda>s. None" 100 "\<lambda>n. True"]
  by (simp add: webhook_eval_defs)



end
